theory Spec2Isabelle
  imports Complex_Main "HOL-Library.Sublist"
begin

section \<open>Strings\<close>

text \<open>
  A Python \<open>str\<close> is modelled as a \<open>string\<close>: a list of the 256 values of \<open>char\<close>, read as
  the code points below 256. The functions below follow Python on ASCII text; Python's
  case mapping and character classes beyond ASCII are not modelled (such a character is
  left unchanged by \<open>py_upper\<close> and is no letter), except for the white space
  of \<open>str.strip\<close>, which is complete for code points below 256.
\<close>

definition cp :: "char \<Rightarrow> nat" where
  "cp c = of_char c"

text \<open>\<open>str.isspace\<close> on one character: TAB, LF, VT, FF, CR, FS, GS, RS, US, space, NEL, NBSP.\<close>

definition py_isspace :: "char \<Rightarrow> bool" where
  "py_isspace c = (let n = cp c in (9 \<le> n \<and> n \<le> 13) \<or> (28 \<le> n \<and> n \<le> 32) \<or> n = 133 \<or> n = 160)"

text \<open>\<open>s.strip()\<close>: leading and trailing white space removed.\<close>

definition py_lstrip :: "string \<Rightarrow> string" where
  "py_lstrip s = dropWhile py_isspace s"

definition py_rstrip :: "string \<Rightarrow> string" where
  "py_rstrip s = rev (dropWhile py_isspace (rev s))"

definition py_strip :: "string \<Rightarrow> string" where
  "py_strip s = py_rstrip (py_lstrip s)"

text \<open>
  \<open>s.replace(old, new)\<close>: the occurrences of \<open>old\<close> are found from left to right, each
  search starting after the previous occurrence. With an empty \<open>old\<close>, \<open>new\<close> is put
  before every character and at the end.
\<close>

fun replace_scan :: "string \<Rightarrow> string \<Rightarrow> string \<Rightarrow> string" where
  "replace_scan [] old new = []"
| "replace_scan (c # cs) old new =
     (if prefix old (c # cs) then new @ replace_scan (drop (length old - 1) cs) old new
      else c # replace_scan cs old new)"

definition py_replace :: "string \<Rightarrow> string \<Rightarrow> string \<Rightarrow> string" where
  "py_replace s old new =
     (if old = [] then new @ concat (map (\<lambda>c. c # new) s) else replace_scan s old new)"

text \<open>\<open>sub in s\<close>: \<open>sub\<close> occurs in \<open>s\<close> as a contiguous substring.\<close>

fun py_in :: "string \<Rightarrow> string \<Rightarrow> bool" where
  "py_in sub [] = (sub = [])"
| "py_in sub (c # cs) = (prefix sub (c # cs) \<or> py_in sub cs)"

text \<open>\<open>s.upper()\<close> on ASCII: the letters a to z become A to Z.\<close>

definition upper_char :: "char \<Rightarrow> char" where
  "upper_char c =
     (case map_of (zip ''abcdefghijklmnopqrstuvwxyz'' ''ABCDEFGHIJKLMNOPQRSTUVWXYZ'') c of
        Some u \<Rightarrow> u
      | None \<Rightarrow> c)"

definition py_upper :: "string \<Rightarrow> string" where
  "py_upper s = map upper_char s"

text \<open>\<open>s.endswith((a, b, c))\<close> with a tuple: some member is a suffix of \<open>s\<close>.\<close>

definition py_endswith :: "string \<Rightarrow> string list \<Rightarrow> bool" where
  "py_endswith s sufs = list_ex (\<lambda>x. suffix x s) sufs"

section \<open>Exceptions, images and the trace of effects\<close>

text \<open>
  The classes of exception that the libraries called by the program raise. All of them
  derive from Python's \<open>Exception\<close>; \<open>FileNotFoundError\<close> derives from \<open>OSError\<close>, of
  which \<open>IOError\<close> is another name. An exception carries its message, \<open>str(e)\<close>.
  Asynchronous exceptions outside \<open>Exception\<close> (a keyboard interrupt) are not modelled.
\<close>

datatype exn_class =
  FileNotFoundError | OSError | ValueError | ZeroDivisionError | IndexError | KeyError
  | OtherException

datatype exn = Exn exn_class string

fun exn_class_of :: "exn \<Rightarrow> exn_class" where
  "exn_class_of (Exn c m) = c"

fun exn_str :: "exn \<Rightarrow> string" where
  "exn_str (Exn c m) = m"

text \<open>\<open>except FileNotFoundError\<close>, \<open>except IOError\<close> and \<open>except Exception\<close>.\<close>

definition is_FileNotFoundError :: "exn \<Rightarrow> bool" where
  "is_FileNotFoundError e = (exn_class_of e = FileNotFoundError)"

definition is_IOError :: "exn \<Rightarrow> bool" where
  "is_IOError e = (exn_class_of e = FileNotFoundError \<or> exn_class_of e = OSError)"

fun is_Exception :: "exn \<Rightarrow> bool" where
  "is_Exception (Exn FileNotFoundError m) = True"
| "is_Exception (Exn OSError m) = True"
| "is_Exception (Exn ValueError m) = True"
| "is_Exception (Exn ZeroDivisionError m) = True"
| "is_Exception (Exn IndexError m) = True"
| "is_Exception (Exn KeyError m) = True"
| "is_Exception (Exn OtherException m) = True"

text \<open>
  A drawing of text: \<open>draw.text((x, y), text, font=font, fill=fill, align=align)\<close>.
  A font is what \<open>ImageFont.truetype(file, size)\<close> was asked for.
\<close>

record font =
  font_file :: string
  font_size :: int

record text_cmd =
  cmd_x :: rat
  cmd_y :: rat
  cmd_text :: string
  cmd_font :: font
  cmd_fill :: string
  cmd_align :: string

text \<open>
  An image: its size in pixels, and its pixel data as the file it was read from with
  the text drawn onto it since, in order.
\<close>

record image =
  img_width :: int
  img_height :: int
  img_source :: string
  img_drawn :: "text_cmd list"

text \<open>
  What the program does to the world, in order: the calls of the model, of the image and
  font loaders, and what it shows through the user interface.
\<close>

datatype event =
  Model_call string
  | Image_open string
  | Truetype string int
  | St_error string
  | St_warning string
  | St_info string
  | St_subheader string
  | St_image_file string
  | St_image image
  | Image_save image string
  | St_download_button string string string string

type_synonym trace = "event list"

text \<open>
  The external collaborators: the text-generation pipeline (the prompt to the list of
  returned sequences, each a dictionary), the directory listing, and the imaging library.
\<close>

record env =
  text_generator :: "string \<Rightarrow> exn + (string \<rightharpoonup> string) list"
  listdir :: "string \<Rightarrow> exn + string list"
  image_open :: "string \<Rightarrow> exn + image"
  truetype :: "string \<Rightarrow> int \<Rightarrow> exn + font"
  getbbox :: "font \<Rightarrow> string \<Rightarrow> exn + (int \<times> int \<times> int \<times> int)"
  textbbox :: "font \<Rightarrow> string \<Rightarrow> exn + (int \<times> int \<times> int \<times> int)"
  draw_text_raises :: "image \<Rightarrow> text_cmd \<Rightarrow> exn option"

definition TEMPLATE_DIR :: string where
  "TEMPLATE_DIR = ''templates''"

definition FONT_FILE :: string where
  "FONT_FILE = ''NotoSans-VariableFont_wdth,wght.ttf''"

section \<open>The caption generator\<close>

definition full_prompt :: "string \<Rightarrow> string" where
  "full_prompt prompt_text =
     ''A short, funny meme caption for an image, on the topic of '' @ prompt_text @ '':''"

text \<open>\<open>sequences[0]['generated_text']\<close>.\<close>

definition first_generated_text :: "(string \<rightharpoonup> string) list \<Rightarrow> exn + string" where
  "first_generated_text sequences =
     (case sequences of
        [] \<Rightarrow> Inl (Exn IndexError ''list index out of range'')
      | d # _ \<Rightarrow>
          (case d ''generated_text'' of
             None \<Rightarrow> Inl (Exn KeyError ([CHR 0x27] @ ''generated_text'' @ [CHR 0x27]))
           | Some t \<Rightarrow> Inr t))"

text \<open>The body of the \<open>try\<close> of \<open>generate_caption\<close>: the call of the model and the clean-up.\<close>

definition generate_try :: "env \<Rightarrow> string \<Rightarrow> exn + string" where
  "generate_try env fp =
     (case text_generator env fp of
        Inl e \<Rightarrow> Inl e
      | Inr sequences \<Rightarrow>
          (case first_generated_text sequences of
             Inl e \<Rightarrow> Inl e
           | Inr raw \<Rightarrow>
               (let generated_text = py_strip (py_replace raw fp [])
                in Inr (if generated_text \<noteq> [] then generated_text
                        else ''AI could not generate a caption.''))))"

definition generate_caption :: "env \<Rightarrow> string \<Rightarrow> trace \<Rightarrow> string \<times> trace" where
  "generate_caption env prompt_text tr =
     (if prompt_text = [] then (''Please enter a topic!'', tr)
      else
        (let fp = full_prompt prompt_text; tr1 = tr @ [Model_call fp]
         in case generate_try env fp of
              Inr caption \<Rightarrow> (caption, tr1)
            | Inl e \<Rightarrow>
                (''Error generating text.'',
                 tr1 @ [St_error (''Error during AI caption generation: '' @ exn_str e)])))"

section \<open>Observations on a trace\<close>

text \<open>The prompts the model was called with, in order.\<close>

fun model_calls :: "trace \<Rightarrow> string list" where
  "model_calls [] = []"
| "model_calls (Model_call p # tr) = p # model_calls tr"
| "model_calls (_ # tr) = model_calls tr"

section \<open>Example environments\<close>

text \<open>A model that echoes the prompt and continues with a caption between blanks.\<close>

definition env_echo :: env where
  "env_echo =
     \<lparr> text_generator = (\<lambda>p. Inr [[''generated_text'' \<mapsto> p @ '' coffee is my lifeline '']]),
       listdir = (\<lambda>d. Inr [''a.png'', ''notes.txt'', ''b.jpeg'']),
       image_open = (\<lambda>p. Inl (Exn FileNotFoundError p)),
       truetype = (\<lambda>f s. Inl (Exn OSError ''cannot open resource'')),
       getbbox = (\<lambda>f s. Inr (0, 0, 0, 0)),
       textbbox = (\<lambda>f s. Inr (0, 0, 0, 0)),
       draw_text_raises = (\<lambda>i c. None) \<rparr>"

text \<open>
  A model whose output holds the prompt inside a copy of the prompt cut after its first
  seven characters.
\<close>

definition env_nested :: env where
  "env_nested = env_echo \<lparr> text_generator :=
     (\<lambda>p. Inr [[''generated_text'' \<mapsto> take 7 p @ p @ drop 7 p]]) \<rparr>"

text \<open>A model that fails.\<close>

definition env_down :: env where
  "env_down = env_echo \<lparr> text_generator := (\<lambda>p. Inl (Exn OtherException ''out of memory'')) \<rparr>"

section \<open>Facts about the string functions\<close>

lemma model_calls_append: "model_calls (a @ b) = model_calls a @ model_calls b"
  by (induction a rule: model_calls.induct) auto

lemma py_in_iff: "py_in sub s \<longleftrightarrow> (\<exists>a b. s = a @ sub @ b)"
proof (induction s)
  case Nil
  then show ?case by auto
next
  case (Cons c cs)
  show ?case
  proof
    assume "py_in sub (c # cs)"
    then consider "prefix sub (c # cs)" | "py_in sub cs" by auto
    then show "\<exists>a b. c # cs = a @ sub @ b"
    proof cases
      case 1
      then obtain b where "c # cs = sub @ b" by (auto simp: prefix_def)
      then have "c # cs = [] @ sub @ b" by simp
      then show ?thesis by blast
    next
      case 2
      with Cons obtain a b where "cs = a @ sub @ b" by auto
      then have "c # cs = (c # a) @ sub @ b" by simp
      then show ?thesis by blast
    qed
  next
    assume "\<exists>a b. c # cs = a @ sub @ b"
    then obtain a b where ab: "c # cs = a @ sub @ b" by auto
    show "py_in sub (c # cs)"
    proof (cases a)
      case Nil
      with ab have "prefix sub (c # cs)" by (simp add: prefix_def)
      then show ?thesis by simp
    next
      case (Cons x xs)
      with ab have "cs = xs @ sub @ b" by simp
      with Cons.IH show ?thesis by auto
    qed
  qed
qed

lemma py_in_length: "py_in sub s \<Longrightarrow> length sub \<le> length s"
  by (auto simp: py_in_iff)

lemma replace_scan_none: "\<not> py_in old s \<Longrightarrow> replace_scan s old new = s"
  by (induction s) auto

lemma replace_scan_echo:
  "old \<noteq> [] \<Longrightarrow> replace_scan (old @ c) old new = new @ replace_scan c old new"
  by (cases old) auto

lemma py_in_dropWhile: "py_in sub (dropWhile P s) \<Longrightarrow> py_in sub s"
proof -
  assume "py_in sub (dropWhile P s)"
  then obtain a b where "dropWhile P s = a @ sub @ b" by (auto simp: py_in_iff)
  then have "s = (takeWhile P s @ a) @ sub @ b"
    by (metis append.assoc takeWhile_dropWhile_id)
  then show ?thesis unfolding py_in_iff by blast
qed

lemma py_in_rev: "py_in sub s \<Longrightarrow> py_in (rev sub) (rev s)"
  unfolding py_in_iff by (metis append.assoc rev_append)

lemma py_in_strip: "py_in sub (py_strip s) \<Longrightarrow> py_in sub s"
  unfolding py_strip_def py_rstrip_def py_lstrip_def
  by (metis py_in_dropWhile py_in_rev rev_rev_ident)

lemma py_strip_decomp:
  "\<exists>a b. s = a @ py_strip s @ b \<and> list_all py_isspace a \<and> list_all py_isspace b"
proof -
  let ?l = "dropWhile py_isspace s"
  have 1: "s = takeWhile py_isspace s @ ?l" by simp
  have 2: "rev ?l = takeWhile py_isspace (rev ?l) @ dropWhile py_isspace (rev ?l)" by simp
  have "?l = rev (dropWhile py_isspace (rev ?l)) @ rev (takeWhile py_isspace (rev ?l))"
    by (metis 2 rev_append rev_rev_ident)
  then have "s = takeWhile py_isspace s @ py_strip s @ rev (takeWhile py_isspace (rev ?l))"
    unfolding py_strip_def py_rstrip_def py_lstrip_def using 1 by simp
  moreover have "list_all py_isspace (takeWhile py_isspace s)"
    by (simp add: list_all_iff) (meson set_takeWhileD)
  moreover have "list_all py_isspace (rev (takeWhile py_isspace (rev ?l)))"
    by (simp add: list_all_iff) (meson set_takeWhileD)
  ultimately show ?thesis by blast
qed

lemma py_strip_ends:
  "py_strip s \<noteq> [] \<Longrightarrow> \<not> py_isspace (hd (py_strip s)) \<and> \<not> py_isspace (last (py_strip s))"
proof -
  assume ne: "py_strip s \<noteq> []"
  let ?l = "dropWhile py_isspace s"
  let ?r = "dropWhile py_isspace (rev ?l)"
  have st: "py_strip s = rev ?r" by (simp add: py_strip_def py_rstrip_def py_lstrip_def)
  with ne have rne: "?r \<noteq> []" by simp
  then have lne: "?l \<noteq> []" by (cases "?l = []") simp_all
  have a: "\<not> py_isspace (hd ?r)" using rne by (rule hd_dropWhile)
  have "last ?r = last (rev ?l)" using rne
    by (metis last_appendR takeWhile_dropWhile_id)
  then have b: "\<not> py_isspace (last ?r)" using lne hd_dropWhile[OF lne] by (simp add: last_rev)
  show ?thesis using a b rne by (simp add: st hd_rev last_rev)
qed

lemma full_prompt_length: "59 \<le> length (full_prompt p)"
  by (simp add: full_prompt_def)

section \<open>The caption generator: claims\<close>

text \<open>
  Claim C3. For the empty topic, \<open>generate_caption\<close> returns the fixed message
  \<open>Please enter a topic!\<close> and leaves the trace unchanged: the model is not called.
\<close>

theorem generate_caption_empty_topic:
  "generate_caption env [] tr = (''Please enter a topic!'', tr)
   \<and> model_calls (snd (generate_caption env [] tr)) = model_calls tr"
  by (simp add: generate_caption_def)

text \<open>
  Claim C5. For a topic that is not empty, when the call of the model raises,
  \<open>generate_caption\<close> returns \<open>Error generating text.\<close>, shows the failure with
  \<open>st.error\<close>, and has called the model exactly once.
\<close>

theorem generate_caption_failure:
  assumes "prompt_text \<noteq> []"
    and "text_generator env (full_prompt prompt_text) = Inl e"
  shows "generate_caption env prompt_text tr =
           (''Error generating text.'',
            tr @ [Model_call (full_prompt prompt_text),
                  St_error (''Error during AI caption generation: '' @ exn_str e)])
         \<and> model_calls (snd (generate_caption env prompt_text tr)) =
             model_calls tr @ [full_prompt prompt_text]"
  using assms by (simp add: generate_caption_def generate_try_def Let_def model_calls_append)

text \<open>The failing model of \<open>env_down\<close> on the topic \<open>monday mornings\<close>.\<close>

theorem generate_caption_failure_witness:
  "generate_caption env_down ''monday mornings'' [] =
     (''Error generating text.'',
      [Model_call ''A short, funny meme caption for an image, on the topic of monday mornings:'',
       St_error ''Error during AI caption generation: out of memory''])"
proof -
  have h1: "''monday mornings'' \<noteq> []" by simp
  have h2: "text_generator env_down (full_prompt ''monday mornings'') = Inl (Exn OtherException ''out of memory'')"
    by (simp add: env_down_def)
  show ?thesis using generate_caption_failure [OF h1 h2, of "[]"]
    by (simp add: full_prompt_def)
qed

text \<open>
  Claim C4 says that the returned value never includes the instructional prompt. When the
  model's output holds the prompt inside a cut copy of the prompt, removing the inner
  occurrence joins the two pieces into the prompt again, and the returned value is the
  prompt itself.
\<close>

theorem generate_caption_keeps_prompt_counterexample:
  "py_in (full_prompt ''x'') (fst (generate_caption env_nested ''x'' []))"
  by (simp add: generate_caption_def generate_try_def env_nested_def env_echo_def full_prompt_def
      first_generated_text_def py_replace_def py_strip_def py_lstrip_def py_rstrip_def
      py_isspace_def cp_def Let_def)

text \<open>
  Claim C4, amended. For a topic that is not empty on which the model succeeds,
  \<open>generate_caption\<close> returns the model's raw output with the occurrences of the prompt,
  found from left to right, removed and the surrounding white space trimmed, or the
  fallback \<open>AI could not generate a caption.\<close> when that is empty. When the raw output is
  the prompt followed by a continuation that does not contain the prompt, the result is
  the continuation without its leading and trailing white space (or the fallback), and it
  does not include the prompt.
\<close>

theorem generate_caption_postprocess:
  assumes "prompt_text \<noteq> []"
    and "text_generator env (full_prompt prompt_text) = Inr sequences"
    and "first_generated_text sequences = Inr raw"
  shows "fst (generate_caption env prompt_text tr) =
           (if py_strip (py_replace raw (full_prompt prompt_text) []) = []
            then ''AI could not generate a caption.''
            else py_strip (py_replace raw (full_prompt prompt_text) []))
         \<and> (\<forall>c. raw = full_prompt prompt_text @ c \<and> \<not> py_in (full_prompt prompt_text) c \<longrightarrow>
               (\<exists>a b. c = a @ py_strip c @ b \<and> list_all py_isspace a \<and> list_all py_isspace b)
               \<and> (py_strip c \<noteq> [] \<longrightarrow>
                    \<not> py_isspace (hd (py_strip c)) \<and> \<not> py_isspace (last (py_strip c)))
               \<and> fst (generate_caption env prompt_text tr) =
                   (if py_strip c = [] then ''AI could not generate a caption.'' else py_strip c)
               \<and> \<not> py_in (full_prompt prompt_text) (fst (generate_caption env prompt_text tr)))"
proof -
  let ?P = "full_prompt prompt_text"
  let ?g = "py_strip (py_replace raw ?P [])"
  let ?fb = "''AI could not generate a caption.''"
  have Pne: "?P \<noteq> []" by (simp add: full_prompt_def)
  have res: "fst (generate_caption env prompt_text tr) = (if ?g = [] then ?fb else ?g)"
    using assms by (simp add: generate_caption_def generate_try_def Let_def)
  have nofb: "\<not> py_in ?P ?fb"
  proof
    assume "py_in ?P ?fb"
    then have "length ?P \<le> length ?fb" by (rule py_in_length)
    then show False by (simp add: full_prompt_def)
  qed
  have echo: "\<not> py_in ?P (if py_strip c = [] then ?fb else py_strip c)
      \<and> fst (generate_caption env prompt_text tr) = (if py_strip c = [] then ?fb else py_strip c)"
    if c: "raw = ?P @ c" "\<not> py_in ?P c" for c
  proof -
    have "py_replace raw ?P [] = c"
      using c Pne by (simp add: py_replace_def replace_scan_echo replace_scan_none)
    then have g: "?g = py_strip c" by simp
    have "\<not> py_in ?P (py_strip c)" using c(2) py_in_strip by blast
    with nofb res g show ?thesis by simp
  qed
  show ?thesis
  proof (intro conjI allI impI)
    show "fst (generate_caption env prompt_text tr) = (if ?g = [] then ?fb else ?g)"
      by (rule res)
  next
    fix c
    show "\<exists>a b. c = a @ py_strip c @ b \<and> list_all py_isspace a \<and> list_all py_isspace b"
      by (rule py_strip_decomp)
  next
    fix c
    assume "py_strip c \<noteq> []"
    then show "\<not> py_isspace (hd (py_strip c))" using py_strip_ends by blast
  next
    fix c
    assume "py_strip c \<noteq> []"
    then show "\<not> py_isspace (last (py_strip c))" using py_strip_ends by blast
  next
    fix c
    assume "raw = ?P @ c \<and> \<not> py_in ?P c"
    then show "fst (generate_caption env prompt_text tr) =
       (if py_strip c = [] then ?fb else py_strip c)"
      using echo by blast
  next
    fix c
    assume a: "raw = ?P @ c \<and> \<not> py_in ?P c"
    then have e1: "fst (generate_caption env prompt_text tr) =
       (if py_strip c = [] then ?fb else py_strip c)"
      and e2: "\<not> py_in ?P (if py_strip c = [] then ?fb else py_strip c)"
      using echo by blast+
    show "\<not> py_in ?P (fst (generate_caption env prompt_text tr))"
      unfolding e1 by (rule e2)
  qed
qed

text \<open>The echoing model of \<open>env_echo\<close> on the topic \<open>monday mornings\<close>.\<close>

theorem generate_caption_postprocess_witness:
  "fst (generate_caption env_echo ''monday mornings'' []) = ''coffee is my lifeline''
   \<and> \<not> py_in (full_prompt ''monday mornings'') (fst (generate_caption env_echo ''monday mornings'' []))"
proof -
  let ?P = "full_prompt ''monday mornings''"
  let ?c = "'' coffee is my lifeline ''"
  have h1: "''monday mornings'' \<noteq> []" by simp
  have h2: "text_generator env_echo ?P = Inr [[''generated_text'' \<mapsto> ?P @ ?c]]"
    by (simp add: env_echo_def)
  have h3: "first_generated_text [[''generated_text'' \<mapsto> ?P @ ?c]] = Inr (?P @ ?c)"
    by (simp add: first_generated_text_def)
  have h4: "\<not> py_in ?P ?c"
  proof
    assume "py_in ?P ?c"
    then have "length ?P \<le> length ?c" by (rule py_in_length)
    then show False by (simp add: full_prompt_def)
  qed
  have s: "py_strip ?c = ''coffee is my lifeline''"
    by (simp add: py_strip_def py_lstrip_def py_rstrip_def py_isspace_def cp_def)
  from generate_caption_postprocess [OF h1 h2 h3, of "[]"]
  have "\<forall>c. ?P @ ?c = ?P @ c \<and> \<not> py_in ?P c \<longrightarrow>
          fst (generate_caption env_echo ''monday mornings'' []) =
            (if py_strip c = [] then ''AI could not generate a caption.'' else py_strip c)
          \<and> \<not> py_in ?P (fst (generate_caption env_echo ''monday mornings'' []))"
    by blast
  then have "fst (generate_caption env_echo ''monday mornings'' []) =
            (if py_strip ?c = [] then ''AI could not generate a caption.'' else py_strip ?c)
          \<and> \<not> py_in ?P (fst (generate_caption env_echo ''monday mornings'' []))"
    using h4 by blast
  then have r: "fst (generate_caption env_echo ''monday mornings'' []) =
            (if py_strip ?c = [] then ''AI could not generate a caption.'' else py_strip ?c)"
    and n: "\<not> py_in ?P (fst (generate_caption env_echo ''monday mornings'' []))"
    by blast+
  have "fst (generate_caption env_echo ''monday mornings'' []) = ''coffee is my lifeline''"
    unfolding r s by simp
  with n show ?thesis by blast
qed

end
